theory Spec2Isabelle
  imports Main
begin

section \<open>JavaScript values read by the constructors\<close>

text \<open>
  The constructors of \<^verbatim>\<open>classes.js\<close> take the documentation JSON once it has been parsed
  into native JavaScript values. \<open>JUndefined\<close> is not a JSON value: it is what reading an
  absent property gives. An object is the list of its own properties; the first binding
  of a key is the property. Numbers are modelled as integers (the \<open>order\<close>,
  \<open>instance_limit\<close> and literal values of the documentation are integers).
\<close>

datatype json =
    JUndefined
  | JNull
  | JBool bool
  | JNum int
  | JStr string
  | JArr "json list"
  | JObj "(string \<times> json) list"

text \<open>The only exception this code can raise is a \<^verbatim>\<open>TypeError\<close>.\<close>

datatype error = TypeError

text \<open>\<^verbatim>\<open>if (v)\<close>, \<^verbatim>\<open>v || d\<close>, \<^verbatim>\<open>v ? a : b\<close>: the truthiness of a value.\<close>

fun truthy :: "json \<Rightarrow> bool" where
  "truthy JUndefined = False"
| "truthy JNull = False"
| "truthy (JBool b) = b"
| "truthy (JNum n) = (n \<noteq> 0)"
| "truthy (JStr s) = (s \<noteq> [])"
| "truthy (JArr xs) = True"
| "truthy (JObj kvs) = True"

text \<open>\<^verbatim>\<open>a || b\<close>.\<close>

definition or_else :: "json \<Rightarrow> json \<Rightarrow> json" where
  "or_else a b = (if truthy a then a else b)"

text \<open>
  Reading a property of \<open>null\<close> or \<open>undefined\<close> throws; every constructor but the string
  shorthand of \<open>Type\<close> starts by reading one.
\<close>

fun nullish :: "json \<Rightarrow> bool" where
  "nullish JUndefined = True"
| "nullish JNull = True"
| "nullish _ = False"

text \<open>
  \<^verbatim>\<open>json.k\<close> on a value that is neither \<open>null\<close> nor \<open>undefined\<close>, for the property names
  this program reads. None of them is inherited by a boolean, a number, a string or a
  plain object; an array inherits \<^verbatim>\<open>values\<close>, a function, which the program only hands
  to \<^verbatim>\<open>Array.isArray\<close>, where it behaves as \<open>undefined\<close> does.
\<close>

fun field :: "json \<Rightarrow> string \<Rightarrow> json" where
  "field (JObj kvs) k = (case map_of kvs k of None \<Rightarrow> JUndefined | Some v \<Rightarrow> v)"
| "field _ k = JUndefined"

text \<open>\<^verbatim>\<open>typeof v === 'object' && v !== null\<close>.\<close>

fun is_object :: "json \<Rightarrow> bool" where
  "is_object (JArr xs) = True"
| "is_object (JObj kvs) = True"
| "is_object _ = False"

text \<open>\<^verbatim>\<open>typeof v\<close>.\<close>

fun typeof :: "json \<Rightarrow> string" where
  "typeof JUndefined = ''undefined''"
| "typeof JNull = ''object''"
| "typeof (JBool b) = ''boolean''"
| "typeof (JNum n) = ''number''"
| "typeof (JStr s) = ''string''"
| "typeof (JArr xs) = ''object''"
| "typeof (JObj kvs) = ''object''"

subsection \<open>Results that may throw\<close>

text \<open>Run the steps of a loop in order; the first exception ends it.\<close>

fun sequence :: "(error + 'a) list \<Rightarrow> error + 'a list" where
  "sequence [] = Inr []"
| "sequence (r # rs) =
     (case r of
        Inl e \<Rightarrow> Inl e
      | Inr x \<Rightarrow> (case sequence rs of Inl e \<Rightarrow> Inl e | Inr xs \<Rightarrow> Inr (x # xs)))"

subsection \<open>Conversion to string\<close>

text \<open>
  The decimal digits of a number. They are what JavaScript prints for an integer that a
  double holds exactly and that is below \<open>10\<^sup>2\<^sup>1\<close> in absolute value; beyond that,
  and for numbers that are not integers, the model does not follow JavaScript. No
  property below depends on the digits of a number.
\<close>

definition digit_char :: "nat \<Rightarrow> char" where
  "digit_char d = char_of (48 + d)"

function nat_to_str :: "nat \<Rightarrow> string" where
  "nat_to_str n =
     (if n < 10 then [digit_char n] else nat_to_str (n div 10) @ [digit_char (n mod 10)])"
  by pat_completeness auto
termination
  by (relation "measure id") auto

declare nat_to_str.simps [simp del]

definition int_to_str :: "int \<Rightarrow> string" where
  "int_to_str i = (if i < 0 then CHR ''-'' # nat_to_str (nat (- i)) else nat_to_str (nat i))"

text \<open>The strings of a list with a separator between neighbours.\<close>

fun sep_concat :: "string \<Rightarrow> string list \<Rightarrow> string" where
  "sep_concat sep [] = []"
| "sep_concat sep [x] = x"
| "sep_concat sep (x # y # ys) = x @ sep @ sep_concat sep (y # ys)"

text \<open>
  \<open>to_str\<close> is the conversion to string that \<^verbatim>\<open>+\<close> with a string, a template literal and
  \<^verbatim>\<open>Array.prototype.join\<close> apply to a value. An array converts by \<^verbatim>\<open>join(",")\<close>, in which
  \<open>null\<close> and \<open>undefined\<close> elements give the empty string. A plain object converts to
  \<^verbatim>\<open>[object Object]\<close>, unless it has an own property \<^verbatim>\<open>toString\<close>: parsed JSON holds no
  function, so the own property is not callable, \<^verbatim>\<open>Object.prototype.valueOf\<close> returns the
  object itself, and the conversion throws.
\<close>

fun to_str :: "json \<Rightarrow> error + string" where
  "to_str JUndefined = Inr ''undefined''"
| "to_str JNull = Inr ''null''"
| "to_str (JBool b) = Inr (if b then ''true'' else ''false'')"
| "to_str (JNum n) = Inr (int_to_str n)"
| "to_str (JStr s) = Inr s"
| "to_str (JArr xs) =
     (case sequence (map (\<lambda>x. if nullish x then Inr [] else to_str x) xs) of
        Inl e \<Rightarrow> Inl e
      | Inr ss \<Rightarrow> Inr (sep_concat '','' ss))"
| "to_str (JObj kvs) =
     (if ''toString'' \<in> fst ` set kvs then Inl TypeError else Inr ''[object Object]'')"

text \<open>\<^verbatim>\<open>xs.join(sep)\<close> on an array of values.\<close>

definition join :: "json list \<Rightarrow> string \<Rightarrow> error + string" where
  "join xs sep =
     (case sequence (map (\<lambda>x. if nullish x then Inr [] else to_str x) xs) of
        Inl e \<Rightarrow> Inl e
      | Inr ss \<Rightarrow> Inr (sep_concat sep ss))"

text \<open>
  \<^verbatim>\<open>v.toString()\<close> on a value that is not a \<open>Type\<close>: \<open>null\<close> and \<open>undefined\<close> have no
  methods; the built-in methods return what \<open>to_str\<close> does.
\<close>

definition call_toString :: "json \<Rightarrow> error + json" where
  "call_toString v =
     (if nullish v then Inl TypeError
      else case to_str v of Inl e \<Rightarrow> Inl e | Inr s \<Rightarrow> Inr (JStr s))"

text \<open>
  \<^verbatim>\<open>c == "name"\<close> for the names the renderer compares with, none of which reads as a
  number: a string is compared as it is, an array or object through its conversion to
  string (which may throw), and every other value is unequal.
\<close>

definition loose_eq :: "json \<Rightarrow> string \<Rightarrow> error + bool" where
  "loose_eq c nm =
     (case c of
        JStr s \<Rightarrow> Inr (s = nm)
      | JArr xs \<Rightarrow> (case to_str c of Inl e \<Rightarrow> Inl e | Inr s \<Rightarrow> Inr (s = nm))
      | JObj kvs \<Rightarrow> (case to_str c of Inl e \<Rightarrow> Inl e | Inr s \<Rightarrow> Inr (s = nm))
      | _ \<Rightarrow> Inr False)"

section \<open>Type\<close>

text \<open>
  An instance of class \<open>Type\<close>. \<open>key\<close> is \<open>null\<close> or a \<open>Type\<close>; \<open>value\<close> is a \<open>Type\<close> or the
  JSON value as it was given; \<open>values\<close> and \<open>options\<close> are \<open>null\<close> or arrays of such.
  Several classes have fields of the same name (\<open>name\<close>, \<open>description\<close>, \<open>values\<close>,
  \<open>visibility\<close>, ...): a field that is not the only one of its name carries a prefix
  for its class, here \<open>t_\<close>.
\<close>

datatype Type =
  Type (complex_type: json) (key: "Type option") (t_value: tval)
       (t_values: "tval list option") (options: "tval list option")
       (full_format: json) (t_description: json)
and tval = Plain json | Inst Type

lemma size_map_of:
  "map_of kvs k = Some v \<Longrightarrow> size v < Suc (size_list (size_prod (\<lambda>_. 0) size) kvs)"
  by (induction kvs) (auto split: if_splits)

lemma size_field: "field j k \<noteq> JUndefined \<Longrightarrow> size (field j k) < size j"
  by (cases j) (auto split: option.splits dest: size_map_of)

lemma size_field_truthy: "truthy (field j k) \<Longrightarrow> size (field j k) < size j"
  by (rule size_field) auto

lemma size_elem: "x \<in> set xs \<Longrightarrow> size x < size (JArr xs)"
  by (induction xs) auto

lemma size_field_elem:
  assumes "field j k = JArr xs" and "x \<in> set xs"
  shows "size x < size j"
proof -
  have "size x < size (JArr xs)"
    using assms(2) by (rule size_elem)
  moreover have "size (JArr xs) < size j"
    using size_field [of j k] assms(1) by simp
  ultimately show ?thesis by simp
qed

text \<open>
  The constructor. A string is the shorthand of a simple type: it is stored in
  \<open>complex_type\<close> and every other field keeps its initial \<open>null\<close>.
\<close>

function Type_new :: "json \<Rightarrow> error + Type" where
  "Type_new json =
     (if typeof json = ''string''
      then Inr (Type json None (Plain JNull) None None JNull JNull)
      else
        if nullish json then Inl TypeError
        else
          (case (if truthy (field json ''key'')
                 then (case Type_new (field json ''key'') of
                         Inl e \<Rightarrow> Inl e | Inr t \<Rightarrow> Inr (Some t))
                 else Inr None) of
             Inl e \<Rightarrow> Inl e
           | Inr k \<Rightarrow>
          (case (if field json ''value'' \<noteq> JUndefined
                 then (if is_object (field json ''value'')
                       then (case Type_new (field json ''value'') of
                               Inl e \<Rightarrow> Inl e | Inr t \<Rightarrow> Inr (Inst t))
                       else Inr (Plain (field json ''value'')))
                 else Inr (Plain JNull)) of
             Inl e \<Rightarrow> Inl e
           | Inr v \<Rightarrow>
          (case (case field json ''values'' of
                   JArr xs \<Rightarrow>
                     (case sequence (map (\<lambda>value_json.
                             if is_object value_json
                             then (case Type_new value_json of
                                     Inl e \<Rightarrow> Inl e | Inr t \<Rightarrow> Inr (Inst t))
                             else Inr (Plain value_json)) xs) of
                        Inl e \<Rightarrow> Inl e | Inr ys \<Rightarrow> Inr (Some ys))
                 | _ \<Rightarrow> Inr None) of
             Inl e \<Rightarrow> Inl e
           | Inr vs \<Rightarrow>
          (case (case field json ''options'' of
                   JArr xs \<Rightarrow>
                     (case sequence (map (\<lambda>option_json.
                             if is_object option_json
                             then (case Type_new option_json of
                                     Inl e \<Rightarrow> Inl e | Inr t \<Rightarrow> Inr (Inst t))
                             else Inr (Plain option_json)) xs) of
                        Inl e \<Rightarrow> Inl e | Inr ys \<Rightarrow> Inr (Some ys))
                 | _ \<Rightarrow> Inr None) of
             Inl e \<Rightarrow> Inl e
           | Inr os \<Rightarrow>
               Inr (Type (field json ''complex_type'') k v vs os
                      (or_else (field json ''full_format'') JNull)
                      (or_else (field json ''description'') JNull)))))))"
  by pat_completeness auto
termination
  by (relation "measure size")
     (simp_all del: field.simps add: size_field size_field_truthy size_field_elem)

declare Type_new.simps [simp del]

text \<open>
  \<open>toString\<close> is the method of \<open>Type\<close>. It returns a string in every branch but the
  last, which returns \<open>complex_type\<close> whatever it holds, and the branch of \<^verbatim>\<open>"type"\<close>,
  which returns what the inner call returns.

  \<open>tval_toString\<close> is \<^verbatim>\<open>v.toString()\<close> on a member that is a \<open>Type\<close> or a plain value.
  \<open>tval_to_str\<close> is the conversion that \<^verbatim>\<open>+\<close> applies to such a member: a \<open>Type\<close> is
  converted by its \<open>toString\<close>, whose result must be a primitive value.
\<close>

fun toString :: "Type \<Rightarrow> error + json"
  and tval_toString :: "tval \<Rightarrow> error + json"
  and tval_to_str :: "tval \<Rightarrow> error + string"
where
  \<open>toString (Type c k v vs os ff d) =
     (case loose_eq c ''array'' of Inl e \<Rightarrow> Inl e
      | Inr True \<Rightarrow>
          (case tval_to_str v of Inl e \<Rightarrow> Inl e | Inr s \<Rightarrow> Inr (JStr (s @ ''[]'')))
      | Inr False \<Rightarrow>
     (case loose_eq c ''dictionary'' of Inl e \<Rightarrow> Inl e
      | Inr True \<Rightarrow>
          (case (case k of None \<Rightarrow> Inr ''null'' | Some t \<Rightarrow> tval_to_str (Inst t)) of
             Inl e \<Rightarrow> Inl e
           | Inr ks \<Rightarrow>
          (case tval_to_str v of
             Inl e \<Rightarrow> Inl e
           | Inr s \<Rightarrow> Inr (JStr (''table<'' @ ks @ '', '' @ s @ ''>''))))
      | Inr False \<Rightarrow>
     (case loose_eq c ''tuple'' of Inl e \<Rightarrow> Inl e
      | Inr True \<Rightarrow>
          (case vs of
             None \<Rightarrow> Inl TypeError
           | Some xs \<Rightarrow>
               (case sequence (map tval_toString xs) of
                  Inl e \<Rightarrow> Inl e
                | Inr rs \<Rightarrow>
                    (case join rs '', '' of
                       Inl e \<Rightarrow> Inl e
                     | Inr s \<Rightarrow> Inr (JStr (''tuple<'' @ s @ ''>'')))))
      | Inr False \<Rightarrow>
     (case loose_eq c ''union'' of Inl e \<Rightarrow> Inl e
      | Inr True \<Rightarrow>
          (case os of
             None \<Rightarrow> Inl TypeError
           | Some xs \<Rightarrow>
               (case sequence (map tval_toString xs) of
                  Inl e \<Rightarrow> Inl e
                | Inr rs \<Rightarrow>
                    (case join rs '' | '' of
                       Inl e \<Rightarrow> Inl e
                     | Inr s \<Rightarrow> Inr (JStr s))))
      | Inr False \<Rightarrow>
     (case loose_eq c ''literal'' of Inl e \<Rightarrow> Inl e
      | Inr True \<Rightarrow>
          (case v of
             Plain (JStr s) \<Rightarrow>
               (if truthy d
                then (case to_str d of
                        Inl e \<Rightarrow> Inl e
                      | Inr ds \<Rightarrow> Inr (JStr (''string """'' @ ds @ ''"'')))
                else Inr (JStr (''string """'' @ s @ ''"'')))
           | Plain (JNum n) \<Rightarrow>
               (if truthy d
                then (case to_str d of
                        Inl e \<Rightarrow> Inl e
                      | Inr ds \<Rightarrow> Inr (JStr (typeof (JNum n) @ '' '' @ ds)))
                else Inr (JStr (typeof (JNum n))))
           | Plain (JBool b) \<Rightarrow>
               (if truthy d
                then (case to_str d of
                        Inl e \<Rightarrow> Inl e
                      | Inr ds \<Rightarrow> Inr (JStr (typeof (JBool b) @ '' '' @ ds)))
                else Inr (JStr (typeof (JBool b))))
           | _ \<Rightarrow> Inr (JStr ''any''))
      | Inr False \<Rightarrow>
     (case loose_eq c ''type'' of Inl e \<Rightarrow> Inl e
      | Inr True \<Rightarrow> tval_toString v
      | Inr False \<Rightarrow> Inr c))))))\<close>
| \<open>tval_toString (Plain p) = call_toString p\<close>
| \<open>tval_toString (Inst t) = toString t\<close>
| \<open>tval_to_str (Plain p) = to_str p\<close>
| \<open>tval_to_str (Inst t) =
     (case toString t of
        Inl e \<Rightarrow> Inl e
      | Inr r \<Rightarrow> if is_object r then Inl TypeError else to_str r)\<close>

section \<open>Building blocks of the entity constructors\<close>

text \<open>A step that may throw, followed by the rest of the constructor.\<close>

definition and_then :: "error + 'a \<Rightarrow> ('a \<Rightarrow> error + 'b) \<Rightarrow> error + 'b" where
  "and_then r f = (case r of Inl e \<Rightarrow> Inl e | Inr x \<Rightarrow> f x)"

text \<open>
  \<^verbatim>\<open>if (Array.isArray(v)) { xs = []; for (const x of v) xs.push(new C(x)); } else xs = null\<close>.
\<close>

definition new_array :: "(json \<Rightarrow> error + 'a) \<Rightarrow> json \<Rightarrow> error + 'a list option" where
  "new_array ctor v =
     (case v of
        JArr xs \<Rightarrow> and_then (sequence (map ctor xs)) (\<lambda>ys. Inr (Some ys))
      | _ \<Rightarrow> Inr None)"

text \<open>\<^verbatim>\<open>v ? new C(v) : null\<close>.\<close>

definition new_if_truthy :: "(json \<Rightarrow> error + 'a) \<Rightarrow> json \<Rightarrow> error + 'a option" where
  "new_if_truthy ctor v =
     (if truthy v then and_then (ctor v) (\<lambda>x. Inr (Some x)) else Inr None)"

text \<open>A chain of \<^verbatim>\<open>+\<close> that starts with a string: every operand is converted to string.\<close>

definition str_concat :: "(error + string) list \<Rightarrow> error + string" where
  "str_concat rs = and_then (sequence rs) (\<lambda>ss. Inr (concat ss))"

text \<open>\<^verbatim>\<open>s.split('\n')\<close> on a string.\<close>

fun split_nl :: "string \<Rightarrow> string list" where
  "split_nl [] = [[]]"
| "split_nl (c # cs) =
     (if c = CHR 0x0A then [] # split_nl cs
      else (case split_nl cs of [] \<Rightarrow> [[c]] | x # xs \<Rightarrow> (c # x) # xs))"

text \<open>
  \<^verbatim>\<open>d.split('\n')[0]\<close>: only a string has the method \<^verbatim>\<open>split\<close> (parsed JSON holds no
  function); index 0 of an empty array would be \<open>undefined\<close>.
\<close>

definition first_line :: "json \<Rightarrow> error + json" where
  "first_line d =
     (case d of
        JStr s \<Rightarrow> Inr (case split_nl s of [] \<Rightarrow> JUndefined | x # xs \<Rightarrow> JStr x)
      | _ \<Rightarrow> Inl TypeError)"

text \<open>
  \<^verbatim>\<open>s.replaceAll(pat, rep)\<close> for a pattern that is a non-empty string: the occurrences are
  found from left to right, and the search goes on after each one.
\<close>

function replaceAll :: "string \<Rightarrow> string \<Rightarrow> string \<Rightarrow> string" where
  "replaceAll s pat rep =
     (case s of
        [] \<Rightarrow> []
      | c # cs \<Rightarrow>
          if pat \<noteq> [] \<and> take (length pat) s = pat
          then rep @ replaceAll (drop (length pat) s) pat rep
          else c # replaceAll cs pat rep)"
  by pat_completeness auto
termination
  by (relation "measure (\<lambda>(s, pat, rep). length s)") auto

declare replaceAll.simps [simp del]


section \<open>Image and BasicMember\<close>

record Image =
  im_filename :: json
  im_caption :: json

definition Image_new :: "json \<Rightarrow> error + Image" where
  "Image_new json =
     (if nullish json then Inl TypeError
      else Inr \<lparr>im_filename = field json ''filename'',
                im_caption = or_else (field json ''caption'') JNull\<rparr>)"

record BasicMember =
  bm_name :: json
  bm_order :: json
  bm_description :: json
  bm_lists :: json
  bm_examples :: json
  bm_images :: "Image list option"

definition BasicMember_new :: "json \<Rightarrow> error + BasicMember" where
  "BasicMember_new json =
     (if nullish json then Inl TypeError
      else
        and_then (new_array Image_new (field json ''images'')) (\<lambda>images.
        Inr \<lparr>bm_name = field json ''name'',
             bm_order = field json ''order'',
             bm_description = or_else (field json ''description'') (JStr []),
             bm_lists = or_else (field json ''lists'') JNull,
             bm_examples = or_else (field json ''examples'') JNull,
             bm_images = images\<rparr>))"

section \<open>DefineValue\<close>

record DefineValue =
  dv_name :: json
  dv_order :: json
  dv_description :: json

definition DefineValue_new :: "json \<Rightarrow> error + DefineValue" where
  "DefineValue_new json =
     (if nullish json then Inl TypeError
      else Inr \<lparr>dv_name = field json ''name'',
                dv_order = field json ''order'',
                dv_description = field json ''description''\<rparr>)"

definition DefineValue_toField :: "DefineValue \<Rightarrow> error + string" where
  \<open>DefineValue_toField this =
     and_then (first_line (dv_description this)) (\<lambda>firstLineDesc.
     str_concat [Inr ''---@field '', to_str (dv_name this), Inr '' "'',
                 to_str (dv_name this), Inr ''"'', to_str firstLineDesc])\<close>

section \<open>Property and Prototype\<close>

record Property = BasicMember +
  pr_visibility :: json
  pr_alt_name :: json
  pr_override :: json
  pr_type :: "Type option"
  pr_optional :: json
  pr_default :: json

definition Property_new :: "json \<Rightarrow> error + Property" where
  "Property_new json =
     and_then (BasicMember_new json) (\<lambda>super.
     and_then (new_if_truthy Type_new (field json ''type'')) (\<lambda>type.
     Inr \<lparr>bm_name = bm_name super, bm_order = bm_order super,
          bm_description = bm_description super, bm_lists = bm_lists super,
          bm_examples = bm_examples super, bm_images = bm_images super,
          pr_visibility = or_else (field json ''visibility'') JNull,
          pr_alt_name = or_else (field json ''alt_name'') JNull,
          pr_override = or_else (field json ''override'') (JBool False),
          pr_type = type,
          pr_optional = or_else (field json ''optional'') (JBool False),
          pr_default = or_else (field json ''default'') JNull\<rparr>))"

text \<open>
  \<open>properties\<close> keeps its initial \<open>null\<close> when \<^verbatim>\<open>json.properties\<close> is not an array: the
  constructor has no \<^verbatim>\<open>else\<close> there.
\<close>

record Prototype = BasicMember +
  pt_visibility :: json
  pt_parent :: json
  pt_abstract :: json
  pt_typename :: json
  pt_instance_limit :: json
  pt_deprecated :: json
  pt_properties :: "Property list option"
  pt_custom_properties :: json
  pt_default :: json

definition Prototype_new :: "json \<Rightarrow> error + Prototype" where
  "Prototype_new json =
     and_then (BasicMember_new json) (\<lambda>super.
     and_then (new_array Property_new (field json ''properties'')) (\<lambda>properties.
     Inr \<lparr>bm_name = bm_name super, bm_order = bm_order super,
          bm_description = bm_description super, bm_lists = bm_lists super,
          bm_examples = bm_examples super, bm_images = bm_images super,
          pt_visibility = or_else (field json ''visibility'') JNull,
          pt_parent = or_else (field json ''parent'') JNull,
          pt_abstract = or_else (field json ''abstract'') (JBool False),
          pt_typename = or_else (field json ''typename'') JNull,
          pt_instance_limit = or_else (field json ''instance_limit'') JNull,
          pt_deprecated = or_else (field json ''deprecated'') (JBool False),
          pt_properties = properties,
          pt_custom_properties = or_else (field json ''custom_properties'') JNull,
          pt_default = or_else (field json ''default'') JNull\<rparr>))"

section \<open>Concept and Define\<close>

record Concept = BasicMember +
  co_parent :: json
  co_abstract :: json
  co_inline :: json
  co_type :: "Type option"
  co_properties :: "Property list option"

definition Concept_new :: "json \<Rightarrow> error + Concept" where
  "Concept_new json =
     and_then (BasicMember_new json) (\<lambda>super.
     and_then (new_if_truthy Type_new (field json ''type'')) (\<lambda>type.
     and_then (new_array Property_new (field json ''properties'')) (\<lambda>properties.
     Inr \<lparr>bm_name = bm_name super, bm_order = bm_order super,
          bm_description = bm_description super, bm_lists = bm_lists super,
          bm_examples = bm_examples super, bm_images = bm_images super,
          co_parent = or_else (field json ''parent'') JNull,
          co_abstract = or_else (field json ''abstract'') (JBool False),
          co_inline = or_else (field json ''inline'') (JBool False),
          co_type = type,
          co_properties = properties\<rparr>)))"

text \<open>
  A \<open>Define\<close> holds \<open>Define\<close>s in \<open>subkeys\<close>, so it is a datatype: \<open>d_member\<close> holds the
  fields it inherits from \<open>BasicMember\<close>.
\<close>

datatype Define =
  Define (d_member: BasicMember) (d_values: "DefineValue list option")
         (d_subkeys: "Define list option")

function Define_new :: "json \<Rightarrow> error + Define" where
  "Define_new json =
     (case BasicMember_new json of
        Inl e \<Rightarrow> Inl e
      | Inr super \<Rightarrow>
     (case new_array DefineValue_new (field json ''values'') of
        Inl e \<Rightarrow> Inl e
      | Inr values \<Rightarrow>
     (case (case field json ''subkeys'' of
              JArr xs \<Rightarrow>
                (case sequence (map Define_new xs) of
                   Inl e \<Rightarrow> Inl e | Inr ys \<Rightarrow> Inr (Some ys))
            | _ \<Rightarrow> Inr None) of
        Inl e \<Rightarrow> Inl e
      | Inr subkeys \<Rightarrow> Inr (Define super values subkeys))))"
  by pat_completeness auto
termination
  by (relation "measure size") (simp_all del: field.simps add: size_field_elem)

declare Define_new.simps [simp del]

section \<open>Parameter, ParameterGroup, VariadicParameter, MethodFormat, EventRaised\<close>

record Parameter =
  p_name :: json
  p_order :: json
  p_description :: json
  p_type :: "Type option"
  p_optional :: json

definition Parameter_new :: "json \<Rightarrow> error + Parameter" where
  "Parameter_new json =
     (if nullish json then Inl TypeError
      else
        and_then (new_if_truthy Type_new (field json ''type'')) (\<lambda>type.
        Inr \<lparr>p_name = field json ''name'',
             p_order = field json ''order'',
             p_description = field json ''description'',
             p_type = type,
             p_optional = or_else (field json ''optional'') (JBool False)\<rparr>))"

record ParameterGroup =
  pg_name :: json
  pg_order :: json
  pg_description :: json
  pg_parameters :: "Parameter list option"

definition ParameterGroup_new :: "json \<Rightarrow> error + ParameterGroup" where
  "ParameterGroup_new json =
     (if nullish json then Inl TypeError
      else
        and_then (new_array Parameter_new (field json ''parameters'')) (\<lambda>parameters.
        Inr \<lparr>pg_name = field json ''name'',
             pg_order = field json ''order'',
             pg_description = field json ''description'',
             pg_parameters = parameters\<rparr>))"

record VariadicParameter =
  vp_type :: "Type option"
  vp_description :: json

definition VariadicParameter_new :: "json \<Rightarrow> error + VariadicParameter" where
  "VariadicParameter_new json =
     (if nullish json then Inl TypeError
      else
        and_then (new_if_truthy Type_new (field json ''type'')) (\<lambda>type.
        Inr \<lparr>vp_type = type, vp_description = field json ''description''\<rparr>))"

record MethodFormat =
  mf_takes_table :: json
  mf_takes_optional :: json

definition MethodFormat_new :: "json \<Rightarrow> error + MethodFormat" where
  "MethodFormat_new json =
     (if nullish json then Inl TypeError
      else Inr \<lparr>mf_takes_table = or_else (field json ''takes_table'') (JBool False),
                mf_takes_optional = or_else (field json ''takes_optional'') JNull\<rparr>)"

record EventRaised =
  er_name :: json
  er_order :: json
  er_description :: json
  er_timeframe :: json
  er_optional :: json

definition EventRaised_new :: "json \<Rightarrow> error + EventRaised" where
  "EventRaised_new json =
     (if nullish json then Inl TypeError
      else Inr \<lparr>er_name = field json ''name'',
                er_order = field json ''order'',
                er_description = field json ''description'',
                er_timeframe = field json ''timeframe'',
                er_optional = field json ''optional''\<rparr>)"

section \<open>Attribute\<close>

record Attribute = BasicMember +
  at_visibility :: json
  at_raises :: "EventRaised list option"
  at_subclasses :: json
  at_read_type :: "Type option"
  at_write_type :: "Type option"
  at_optional :: json

definition Attribute_new :: "json \<Rightarrow> error + Attribute" where
  "Attribute_new json =
     and_then (BasicMember_new json) (\<lambda>super.
     and_then (new_array EventRaised_new (field json ''raises'')) (\<lambda>raises.
     and_then (new_if_truthy Type_new (field json ''read_type'')) (\<lambda>read_type.
     and_then (new_if_truthy Type_new (field json ''write_type'')) (\<lambda>write_type.
     Inr \<lparr>bm_name = bm_name super, bm_order = bm_order super,
          bm_description = bm_description super, bm_lists = bm_lists super,
          bm_examples = bm_examples super, bm_images = bm_images super,
          at_visibility = or_else (field json ''visibility'') JNull,
          at_raises = raises,
          at_subclasses = or_else (field json ''subclasses'') JNull,
          at_read_type = read_type,
          at_write_type = write_type,
          at_optional = or_else (field json ''optional'') (JBool False)\<rparr>))))"

text \<open>
  The local \<^verbatim>\<open>typeStr\<close> of \<^verbatim>\<open>Attribute.toField\<close>: a string when both types are set,
  what the one \<open>toString\<close> returned when one is, \<^verbatim>\<open>"any"\<close> when none is.
\<close>

definition Attribute_typeStr :: "Attribute \<Rightarrow> error + json" where
  "Attribute_typeStr this =
     (case (at_read_type this, at_write_type this) of
        (Some r, Some w) \<Rightarrow>
          and_then (str_concat [and_then (toString r) to_str, Inr '' | '',
                                and_then (toString w) to_str]) (\<lambda>s. Inr (JStr s))
      | (Some r, None) \<Rightarrow> toString r
      | (None, Some w) \<Rightarrow> toString w
      | (None, None) \<Rightarrow> Inr (JStr ''any''))"

definition Attribute_toField :: "Attribute \<Rightarrow> error + string" where
  "Attribute_toField this =
     and_then (first_line (bm_description this)) (\<lambda>firstLineDesc.
     and_then (Attribute_typeStr this) (\<lambda>typeStr.
     str_concat [Inr ''---@field '', to_str (bm_name this), Inr '' '', to_str typeStr,
                 Inr '' '', to_str firstLineDesc]))"

section \<open>Method\<close>

record Method = BasicMember +
  m_visibility :: json
  m_raises :: "EventRaised list option"
  m_subclasses :: json
  m_parameters :: "Parameter list option"
  m_variant_parameter_groups :: "ParameterGroup list option"
  m_variant_parameter_description :: json
  m_variadic_parameter :: "VariadicParameter option"
  m_format :: "MethodFormat option"
  m_return_values :: "Parameter list option"

definition Method_new :: "json \<Rightarrow> error + Method" where
  "Method_new json =
     and_then (BasicMember_new json) (\<lambda>super.
     and_then (new_array EventRaised_new (field json ''raises'')) (\<lambda>raises.
     and_then (new_array Parameter_new (field json ''parameters'')) (\<lambda>parameters.
     and_then (new_array ParameterGroup_new (field json ''variant_parameter_groups''))
       (\<lambda>variant_parameter_groups.
     and_then (new_if_truthy VariadicParameter_new (field json ''variadic_parameter''))
       (\<lambda>variadic_parameter.
     and_then (new_if_truthy MethodFormat_new (field json ''format'')) (\<lambda>format.
     and_then (new_array Parameter_new (field json ''return_values'')) (\<lambda>return_values.
     Inr \<lparr>bm_name = bm_name super, bm_order = bm_order super,
          bm_description = bm_description super, bm_lists = bm_lists super,
          bm_examples = bm_examples super, bm_images = bm_images super,
          m_visibility = or_else (field json ''visibility'') JNull,
          m_raises = raises,
          m_subclasses = or_else (field json ''subclasses'') JNull,
          m_parameters = parameters,
          m_variant_parameter_groups = variant_parameter_groups,
          m_variant_parameter_description =
            or_else (field json ''variant_parameter_description'') JNull,
          m_variadic_parameter = variadic_parameter,
          m_format = format,
          m_return_values = return_values\<rparr>)))))))"





section \<open>Class\<close>

text \<open>An entry of \<open>operators\<close> is a \<open>Method\<close> or an \<open>Attribute\<close>.\<close>

datatype operator = OpMethod Method | OpAttribute Attribute

text \<open>
  One round of the loop over \<^verbatim>\<open>json.operators\<close>: the value of the local \<^verbatim>\<open>operator\<close> at
  the end of the round, \<open>None\<close> for \<open>null\<close>.
\<close>

definition operator_new :: "json \<Rightarrow> error + operator option" where
  "operator_new operator_json =
     (if nullish operator_json then Inl TypeError
      else if field operator_json ''name'' = JStr ''call''
            \<or> field operator_json ''name'' = JStr ''index''
            \<or> field operator_json ''name'' = JStr ''length''
      then (if truthy (field operator_json ''parameters'')
               \<or> truthy (field operator_json ''return_values'')
            then and_then (Method_new operator_json) (\<lambda>m. Inr (Some (OpMethod m)))
            else and_then (Attribute_new operator_json) (\<lambda>a. Inr (Some (OpAttribute a))))
      else Inr None)"

fun operators_loop :: "json list \<Rightarrow> error + operator list" where
  "operators_loop [] = Inr []"
| "operators_loop (operator_json # rest) =
     and_then (operator_new operator_json) (\<lambda>operator.
     and_then (operators_loop rest) (\<lambda>pushed.
     Inr (case operator of None \<Rightarrow> pushed | Some op \<Rightarrow> op # pushed)))"

record Class = BasicMember +
  c_visibility :: json
  c_parent :: json
  c_abstract :: json
  c_methods :: "Method list option"
  c_attributes :: "Attribute list option"
  c_operators :: "operator list option"

definition Class_new :: "json \<Rightarrow> error + Class" where
  "Class_new json =
     and_then (BasicMember_new json) (\<lambda>super.
     and_then (new_array Method_new (field json ''methods'')) (\<lambda>methods.
     and_then (new_array Attribute_new (field json ''attributes'')) (\<lambda>attributes.
     and_then (case field json ''operators'' of
                 JArr xs \<Rightarrow> and_then (operators_loop xs) (\<lambda>ops. Inr (Some ops))
               | _ \<Rightarrow> Inr None) (\<lambda>operators.
     Inr \<lparr>bm_name = bm_name super, bm_order = bm_order super,
          bm_description = bm_description super, bm_lists = bm_lists super,
          bm_examples = bm_examples super, bm_images = bm_images super,
          c_visibility = or_else (field json ''visibility'') JNull,
          c_parent = or_else (field json ''parent'') JNull,
          c_abstract = or_else (field json ''abstract'') (JBool False),
          c_methods = methods,
          c_attributes = attributes,
          c_operators = operators\<rparr>))))"

section \<open>Notions used to state the properties\<close>

text \<open>The first line of a description: its text up to the first line feed.\<close>

definition line1 :: "string \<Rightarrow> string" where
  "line1 s = takeWhile (\<lambda>c. c \<noteq> CHR 0x0A) s"

text \<open>\<^verbatim>\<open>Array.isArray(v)\<close>.\<close>

fun is_array :: "json \<Rightarrow> bool" where
  "is_array (JArr xs) = True"
| "is_array _ = False"

text \<open>The JSON value without the property \<open>k\<close>: the property is absent.\<close>

fun without :: "string \<Rightarrow> json \<Rightarrow> json" where
  "without k (JObj kvs) = JObj (filter (\<lambda>(k', v). k' \<noteq> k) kvs)"
| "without k j = j"

text \<open>An operator object named \<^verbatim>\<open>call\<close>, \<^verbatim>\<open>index\<close> or \<^verbatim>\<open>length\<close>.\<close>

definition is_operator_name :: "json \<Rightarrow> bool" where
  "is_operator_name operator_json =
     (field operator_json ''name'' \<in> {JStr ''call'', JStr ''index'', JStr ''length''})"

text \<open>
  An operator object exposes \<^verbatim>\<open>parameters\<close> or \<^verbatim>\<open>return_values\<close>: one of the two has a
  truthy value, as every array has, the empty one too.
\<close>

definition exposes_signature :: "json \<Rightarrow> bool" where
  "exposes_signature operator_json =
     (truthy (field operator_json ''parameters'')
      \<or> truthy (field operator_json ''return_values''))"

text \<open>
  The entry of \<open>operators\<close> is what the operator object is to give: the \<open>Method\<close> built
  from it if it exposes a signature, the \<open>Attribute\<close> built from it otherwise.
\<close>

definition built_from :: "json \<Rightarrow> operator \<Rightarrow> bool" where
  "built_from operator_json operator =
     (case operator of
        OpMethod m \<Rightarrow> exposes_signature operator_json \<and> Method_new operator_json = Inr m
      | OpAttribute a \<Rightarrow>
          \<not> exposes_signature operator_json \<and> Attribute_new operator_json = Inr a)"

text \<open>
  The defaults of the optional members of an entity built from \<open>json\<close>: \<open>lists\<close> and
  \<open>examples\<close> are the value of the JSON when that is truthy and \<open>null\<close> otherwise, never
  \<open>undefined\<close>; \<open>images\<close> is \<open>null\<close> unless the JSON has an array there.
\<close>

definition member_defaults :: "json \<Rightarrow> 'a BasicMember_scheme \<Rightarrow> bool" where
  "member_defaults json b =
     (bm_lists b = (if truthy (field json ''lists'') then field json ''lists'' else JNull)
      \<and> bm_examples b
          = (if truthy (field json ''examples'') then field json ''examples'' else JNull)
      \<and> bm_lists b \<noteq> JUndefined \<and> bm_examples b \<noteq> JUndefined
      \<and> (is_array (field json ''images'') \<or> bm_images b = None))"

text \<open>The call returns: it does not throw.\<close>

definition returns :: "error + 'a \<Rightarrow> bool" where
  "returns r = (case r of Inl e \<Rightarrow> False | Inr x \<Rightarrow> True)"

text \<open>
  What holds of a constructor \<open>ctor\<close> at \<open>json\<close>, \<open>member\<close> giving the inherited fields of
  what it builds: the built entity has the defaults above; whether the constructor
  returns is what it is for the JSON without \<^verbatim>\<open>lists\<close> and \<^verbatim>\<open>examples\<close>; and, when \<^verbatim>\<open>images\<close>
  is not an array, what it is for the JSON without \<^verbatim>\<open>images\<close>.
\<close>

definition defaults_hold ::
  "(json \<Rightarrow> error + 'e) \<Rightarrow> ('e \<Rightarrow> 'a BasicMember_scheme) \<Rightarrow> json \<Rightarrow> bool" where
  "defaults_hold ctor member json =
     ((case ctor json of Inl e \<Rightarrow> True | Inr x \<Rightarrow> member_defaults json (member x))
      \<and> returns (ctor json) = returns (ctor (without ''lists'' (without ''examples'' json)))
      \<and> (is_array (field json ''images'')
          \<or> returns (ctor json) = returns (ctor (without ''images'' json))))"

section \<open>Basic facts\<close>

lemma and_then_Inr [simp]: "and_then (Inr x) f = f x"
  by (simp add: and_then_def)

lemma and_then_Inl [simp]: "and_then (Inl e) f = Inl e"
  by (simp add: and_then_def)

lemma and_then_eq_Inr: "and_then r f = Inr y \<longleftrightarrow> (\<exists>x. r = Inr x \<and> f x = Inr y)"
  by (cases r) auto

lemma sequence_map_Inr [simp]: "sequence (map (\<lambda>x. Inr (f x)) xs) = Inr (map f xs)"
  by (induction xs) auto

lemma split_nl_line1: "\<exists>xs. split_nl s = line1 s # xs"
  by (induction s) (auto simp: line1_def)

lemma first_line_JStr [simp]: "first_line (JStr s) = Inr (JStr (line1 s))"
  using split_nl_line1 [of s] by (auto simp: first_line_def)

lemma first_line_Inr: "first_line d = Inr x \<Longrightarrow> \<exists>s. d = JStr s"
  by (cases d) (auto simp: first_line_def)

lemma loose_eq_JStr [simp]: "loose_eq (JStr s) nm = Inr (s = nm)"
  by (simp add: loose_eq_def)

lemma join_strings [simp]: "join (map JStr ss) sep = Inr (sep_concat sep ss)"
  by (simp add: join_def comp_def)

lemma Type_new_JStr [simp]:
  "Type_new (JStr s) = Inr (Type (JStr s) None (Plain JNull) None None JNull JNull)"
  by (simp add: Type_new.simps)

section \<open>Rendering of types\<close>

text \<open>
  C1. A \<open>Type\<close> whose \<open>complex_type\<close> is \<^verbatim>\<open>"literal"\<close> and whose value is a string \<open>s\<close>
  renders as \<^verbatim>\<open>string """\<close>, then the description when there is one and \<open>s\<close> when there
  is none, then one closing \<^verbatim>\<open>"\<close>. A description is \<open>null\<close> or a non-empty string: the
  constructor stores \<open>null\<close> for an empty one.
\<close>

theorem toString_literal_string:
  assumes \<open>complex_type t = JStr ''literal''\<close>
    and \<open>t_value t = Plain (JStr s)\<close>
    and \<open>t_description t = JNull \<or> (\<exists>d. d \<noteq> [] \<and> t_description t = JStr d)\<close>
  shows \<open>toString t =
           Inr (JStr (''string """'' @ (case t_description t of JStr d \<Rightarrow> d | _ \<Rightarrow> s) @ ''"''))\<close>
  using assms by (cases t) auto

text \<open>
  The literal \<^verbatim>\<open>{complex_type: "literal", value: "foo"}\<close> renders as \<^verbatim>\<open>string """foo"\<close>, and
  with the description \<^verbatim>\<open>"bar"\<close> as \<^verbatim>\<open>string """bar"\<close>.
\<close>

theorem toString_literal_string_witness:
  \<open>Type_new (JObj [(''complex_type'', JStr ''literal''), (''value'', JStr ''foo'')])
     = Inr (Type (JStr ''literal'') None (Plain (JStr ''foo'')) None None JNull JNull)
   \<and> toString (Type (JStr ''literal'') None (Plain (JStr ''foo'')) None None JNull JNull)
     = Inr (JStr ''string """foo"'')
   \<and> Type_new (JObj [(''complex_type'', JStr ''literal''), (''value'', JStr ''foo''),
                     (''description'', JStr ''bar'')])
     = Inr (Type (JStr ''literal'') None (Plain (JStr ''foo'')) None None JNull (JStr ''bar''))
   \<and> toString (Type (JStr ''literal'') None (Plain (JStr ''foo'')) None None JNull (JStr ''bar''))
     = Inr (JStr ''string """bar"'')\<close>
  using toString_literal_string
          [of "Type (JStr ''literal'') None (Plain (JStr ''foo'')) None None JNull JNull" "''foo''"]
        toString_literal_string
          [of "Type (JStr ''literal'') None (Plain (JStr ''foo'')) None None JNull (JStr ''bar'')"
              "''foo''"]
  by (simp add: Type_new.simps or_else_def)

text \<open>
  C2, as stated, fails: the shorthand stores the string in \<open>complex_type\<close>, the field
  \<open>toString\<close> dispatches on, so the bare string \<^verbatim>\<open>"array"\<close> renders as the array of its
  \<open>null\<close> value.
\<close>

theorem toString_shorthand_array_counterexample:
  "and_then (Type_new (JStr ''array'')) toString = Inr (JStr ''null[]'')
   \<and> and_then (Type_new (JStr ''array'')) toString \<noteq> Inr (JStr ''array'')"
  by simp

text \<open>
  C2, amended. For every string \<open>s\<close> other than the six names \<open>toString\<close> dispatches on,
  the \<open>Type\<close> built from the bare string \<open>s\<close> is a leaf (every field but \<open>complex_type\<close>
  is \<open>null\<close>) that renders as \<open>s\<close>.
\<close>

theorem toString_shorthand:
  assumes "s \<notin> {''array'', ''dictionary'', ''tuple'', ''union'', ''literal'', ''type''}"
  shows "Type_new (JStr s) = Inr (Type (JStr s) None (Plain JNull) None None JNull JNull)
         \<and> toString (Type (JStr s) None (Plain JNull) None None JNull JNull) = Inr (JStr s)"
  using assms by simp

text \<open>The bare string \<^verbatim>\<open>"string"\<close> gives a leaf that renders as \<^verbatim>\<open>string\<close>.\<close>

theorem toString_shorthand_witness:
  "''string'' \<notin> {''array'', ''dictionary'', ''tuple'', ''union'', ''literal'', ''type''}
   \<and> Type_new (JStr ''string'')
       = Inr (Type (JStr ''string'') None (Plain JNull) None None JNull JNull)
   \<and> toString (Type (JStr ''string'') None (Plain JNull) None None JNull JNull)
       = Inr (JStr ''string'')"
  using toString_shorthand [of "''string''"] by simp

lemma toString_union_join:
  assumes "complex_type t = JStr ''union''"
    and "options t = Some os"
    and "map tval_toString os = map (\<lambda>s. Inr (JStr s)) ss"
  shows "toString t = Inr (JStr (sep_concat '' | '' ss))"
  using assms by (cases t) simp

text \<open>
  C3. A union whose options render as the strings \<open>ss\<close> renders as these strings in order
  with \<^verbatim>\<open>" | "\<close> between neighbours and nothing around them. So a union that is an option
  of a union is rendered flat: the union of \<open>A\<close> and of the union of \<open>B\<close> and \<open>C\<close> renders
  as the rendering of \<open>A\<close>, \<^verbatim>\<open>" | "\<close>, that of \<open>B\<close>, \<^verbatim>\<open>" | "\<close>, that of \<open>C\<close>.
\<close>

theorem toString_union:
  "(complex_type t = JStr ''union'' \<and> options t = Some os
      \<and> map tval_toString os = map (\<lambda>s. Inr (JStr s)) ss
    \<longrightarrow> toString t = Inr (JStr (sep_concat '' | '' ss)))
   \<and> (complex_type t = JStr ''union'' \<and> options t = Some [A, Inst u]
      \<and> complex_type u = JStr ''union'' \<and> options u = Some [B, C]
      \<and> tval_toString A = Inr (JStr a) \<and> tval_toString B = Inr (JStr b)
      \<and> tval_toString C = Inr (JStr c)
    \<longrightarrow> toString t = Inr (JStr (a @ '' | '' @ b @ '' | '' @ c)))"
proof (intro conjI impI)
  assume "complex_type t = JStr ''union'' \<and> options t = Some os
      \<and> map tval_toString os = map (\<lambda>s. Inr (JStr s)) ss"
  then show "toString t = Inr (JStr (sep_concat '' | '' ss))"
    by (simp add: toString_union_join)
next
  assume a: "complex_type t = JStr ''union'' \<and> options t = Some [A, Inst u]
      \<and> complex_type u = JStr ''union'' \<and> options u = Some [B, C]
      \<and> tval_toString A = Inr (JStr a) \<and> tval_toString B = Inr (JStr b)
      \<and> tval_toString C = Inr (JStr c)"
  then have "map tval_toString [B, C] = map (\<lambda>s. Inr (JStr s)) [b, c]"
    by simp
  with a have inner: "toString u = Inr (JStr (sep_concat '' | '' [b, c]))"
    by (intro toString_union_join [where os = "[B, C]"]) simp_all
  with a have "map tval_toString [A, Inst u] = map (\<lambda>s. Inr (JStr s)) [a, b @ '' | '' @ c]"
    by simp
  with a have "toString t = Inr (JStr (sep_concat '' | '' [a, b @ '' | '' @ c]))"
    by (intro toString_union_join [where os = "[A, Inst u]"]) simp_all
  then show "toString t = Inr (JStr (a @ '' | '' @ b @ '' | '' @ c))"
    by simp
qed

text \<open>
  The union of \<^verbatim>\<open>"int"\<close> and of the union of \<^verbatim>\<open>"string"\<close> and \<^verbatim>\<open>"nil"\<close> renders as
  \<^verbatim>\<open>int | string | nil\<close>.
\<close>

theorem toString_union_witness:
  "Type_new (JObj [(''complex_type'', JStr ''union''),
                   (''options'', JArr [JStr ''int'',
                      JObj [(''complex_type'', JStr ''union''),
                            (''options'', JArr [JStr ''string'', JStr ''nil''])]])])
     = Inr (Type (JStr ''union'') None (Plain JNull) None
              (Some [Plain (JStr ''int''),
                     Inst (Type (JStr ''union'') None (Plain JNull) None
                             (Some [Plain (JStr ''string''), Plain (JStr ''nil'')])
                             JNull JNull)])
              JNull JNull)
   \<and> toString (Type (JStr ''union'') None (Plain JNull) None
                 (Some [Plain (JStr ''string''), Plain (JStr ''nil'')]) JNull JNull)
     = Inr (JStr ''string | nil'')
   \<and> toString (Type (JStr ''union'') None (Plain JNull) None
              (Some [Plain (JStr ''int''),
                     Inst (Type (JStr ''union'') None (Plain JNull) None
                             (Some [Plain (JStr ''string''), Plain (JStr ''nil'')])
                             JNull JNull)])
              JNull JNull)
     = Inr (JStr ''int | string | nil'')"
proof -
  let ?inner = "Type (JStr ''union'') None (Plain JNull) None
                  (Some [Plain (JStr ''string''), Plain (JStr ''nil'')]) JNull JNull"
  let ?outer = "Type (JStr ''union'') None (Plain JNull) None
                  (Some [Plain (JStr ''int''), Inst ?inner]) JNull JNull"
  have leaves: "tval_toString (Plain (JStr ''int'')) = Inr (JStr ''int'')"
    "tval_toString (Plain (JStr ''string'')) = Inr (JStr ''string'')"
    "tval_toString (Plain (JStr ''nil'')) = Inr (JStr ''nil'')"
    by (simp_all add: call_toString_def)
  from toString_union
         [where t = ?inner and os = "[Plain (JStr ''string''), Plain (JStr ''nil'')]"
            and ss = "[''string'', ''nil'']"]
       leaves
  have inner: "toString ?inner = Inr (JStr ''string | nil'')"
    by simp
  from toString_union
         [where t = ?outer and A = "Plain (JStr ''int'')" and u = ?inner
            and B = "Plain (JStr ''string'')" and C = "Plain (JStr ''nil'')"
            and a = "''int''" and b = "''string''" and c = "''nil''"]
       leaves
  have outer: "toString ?outer = Inr (JStr ''int | string | nil'')"
    by simp
  have "Type_new (JObj [(''complex_type'', JStr ''union''),
                   (''options'', JArr [JStr ''int'',
                      JObj [(''complex_type'', JStr ''union''),
                            (''options'', JArr [JStr ''string'', JStr ''nil''])]])])
          = Inr ?outer"
    by (simp add: Type_new.simps or_else_def)
  with inner outer show ?thesis by simp
qed

section \<open>Field declarations\<close>

lemma DefineValue_toField_strings:
  \<open>dv_name dv = JStr n \<Longrightarrow> dv_description dv = JStr d \<Longrightarrow>
   DefineValue_toField dv = Inr (''---@field '' @ n @ '' "'' @ n @ ''"'' @ line1 d)\<close>
  by (simp add: DefineValue_toField_def str_concat_def)

text \<open>
  C4. The define value \<^verbatim>\<open>{name: "north", order: 0, description: "North"}\<close>: \<open>toField\<close>
  returns \<^verbatim>\<open>---@field north "north"North\<close>, the first line of the description right after
  the closing quote, and not \<^verbatim>\<open>---@field north "north" North\<close>.
\<close>

theorem DefineValue_toField_north:
  \<open>and_then (DefineValue_new (JObj [(''name'', JStr ''north''), (''order'', JNum 0),
                                    (''description'', JStr ''North'')]))
     DefineValue_toField = Inr ''---@field north "north"North''
   \<and> and_then (DefineValue_new (JObj [(''name'', JStr ''north''), (''order'', JNum 0),
                                    (''description'', JStr ''North'')]))
     DefineValue_toField \<noteq> Inr ''---@field north "north" North''\<close>
  by (simp add: DefineValue_new_def DefineValue_toField_strings line1_def)

text \<open>
  C9. The constructor of \<open>DefineValue\<close> copies \<^verbatim>\<open>json.description\<close> as it is; \<open>toField\<close>
  returns only when the description is a string, and it does return when the name is a
  string too; built from JSON without a description, \<open>toField\<close> throws. The constructor
  of \<open>BasicMember\<close> stores the empty string for an absent description.
\<close>

theorem DefineValue_toField_needs_description:
  "(DefineValue_new json = Inr dv \<longrightarrow> dv_description dv = field json ''description'')
   \<and> (DefineValue_new json = Inr dv \<and> DefineValue_toField dv = Inr s
        \<longrightarrow> (\<exists>d. field json ''description'' = JStr d))
   \<and> (DefineValue_new json = Inr dv \<and> field json ''description'' = JStr d
         \<and> field json ''name'' = JStr n
        \<longrightarrow> (\<exists>s. DefineValue_toField dv = Inr s))
   \<and> (DefineValue_new json = Inr dv \<and> field json ''description'' = JUndefined
        \<longrightarrow> DefineValue_toField dv = Inl TypeError)
   \<and> (BasicMember_new json = Inr b \<and> field json ''description'' = JUndefined
        \<longrightarrow> bm_description b = JStr [])"
proof (intro conjI impI)
  assume "DefineValue_new json = Inr dv"
  then show "dv_description dv = field json ''description''"
    by (auto simp: DefineValue_new_def split: if_splits)
next
  assume "DefineValue_new json = Inr dv \<and> DefineValue_toField dv = Inr s"
  then show "\<exists>d. field json ''description'' = JStr d"
    by (auto simp: DefineValue_new_def DefineValue_toField_def and_then_eq_Inr
             split: if_splits dest: first_line_Inr)
next
  assume "DefineValue_new json = Inr dv \<and> field json ''description'' = JStr d
         \<and> field json ''name'' = JStr n"
  then have "dv_name dv = JStr n" "dv_description dv = JStr d"
    by (auto simp: DefineValue_new_def split: if_splits)
  then show "\<exists>s. DefineValue_toField dv = Inr s"
    by (simp add: DefineValue_toField_strings)
next
  assume "DefineValue_new json = Inr dv \<and> field json ''description'' = JUndefined"
  then show "DefineValue_toField dv = Inl TypeError"
    by (auto simp: DefineValue_new_def DefineValue_toField_def first_line_def
             split: if_splits)
next
  assume "BasicMember_new json = Inr b \<and> field json ''description'' = JUndefined"
  then show "bm_description b = JStr []"
    by (auto simp: BasicMember_new_def and_then_eq_Inr or_else_def split: if_splits)
qed

text \<open>
  The define value \<^verbatim>\<open>{name: "north", order: 0}\<close> is built, and its \<open>toField\<close> throws; with
  the description \<^verbatim>\<open>"North"\<close> it returns.
\<close>

theorem DefineValue_toField_needs_description_witness:
  "DefineValue_new (JObj [(''name'', JStr ''north''), (''order'', JNum 0)])
     = Inr \<lparr>dv_name = JStr ''north'', dv_order = JNum 0, dv_description = JUndefined\<rparr>
   \<and> DefineValue_toField
       \<lparr>dv_name = JStr ''north'', dv_order = JNum 0, dv_description = JUndefined\<rparr>
     = Inl TypeError
   \<and> BasicMember_new (JObj [(''name'', JStr ''north''), (''order'', JNum 0)])
     = Inr \<lparr>bm_name = JStr ''north'', bm_order = JNum 0, bm_description = JStr [],
            bm_lists = JNull, bm_examples = JNull, bm_images = None\<rparr>
   \<and> DefineValue_new (JObj [(''name'', JStr ''north''), (''order'', JNum 0),
                            (''description'', JStr ''North'')])
     = Inr \<lparr>dv_name = JStr ''north'', dv_order = JNum 0, dv_description = JStr ''North''\<rparr>
   \<and> (\<exists>s. DefineValue_toField
            \<lparr>dv_name = JStr ''north'', dv_order = JNum 0, dv_description = JStr ''North''\<rparr>
          = Inr s)"
  using DefineValue_toField_needs_description
          [of "JObj [(''name'', JStr ''north''), (''order'', JNum 0)]"
              "\<lparr>dv_name = JStr ''north'', dv_order = JNum 0, dv_description = JUndefined\<rparr>"
              "[]" "[]" "[]"
              "\<lparr>bm_name = JStr ''north'', bm_order = JNum 0, bm_description = JStr [],
                bm_lists = JNull, bm_examples = JNull, bm_images = None\<rparr>"]
        DefineValue_toField_needs_description
          [of "JObj [(''name'', JStr ''north''), (''order'', JNum 0),
                     (''description'', JStr ''North'')]"
              "\<lparr>dv_name = JStr ''north'', dv_order = JNum 0, dv_description = JStr ''North''\<rparr>"
              \<open>''---@field north "north"North''\<close> "''North''" "''north''"]
  by (simp add: DefineValue_new_def BasicMember_new_def new_array_def or_else_def
        DefineValue_toField_strings line1_def)



lemma replaceAll_Nil [simp]: "replaceAll [] pat rep = []"
  by (simp add: replaceAll.simps)

lemma replaceAll_absent:
  "c \<in> set pat \<Longrightarrow> c \<notin> set s \<Longrightarrow> replaceAll s pat rep = s"
proof (induction s)
  case Nil
  show ?case by simp
next
  case (Cons x xs)
  have "take (length pat) (x # xs) \<noteq> pat"
  proof
    assume "take (length pat) (x # xs) = pat"
    then have "set pat \<subseteq> set (x # xs)"
      by (metis set_take_subset)
    with Cons.prems show False by auto
  qed
  with Cons show ?case
    by (subst replaceAll.simps) simp
qed

lemma replaceAll_defines_prefix:
  "CHR ''.'' \<notin> set x \<Longrightarrow> replaceAll (''defines.'' @ x) ''defines.'' [] = x"
  by (subst replaceAll.simps) (simp add: replaceAll_absent [where c = "CHR ''.''"])

lemma str_concat_Inr [simp]:
  "str_concat (Inr x # rs) = and_then (str_concat rs) (\<lambda>s. Inr (x @ s))"
  by (cases "sequence rs") (simp_all add: str_concat_def)

lemma str_concat_Nil [simp]: "str_concat [] = Inr []"
  by (simp add: str_concat_def)






lemma new_if_truthy_falsy [simp]: "\<not> truthy v \<Longrightarrow> new_if_truthy ctor v = Inr None"
  by (simp add: new_if_truthy_def)

lemma new_if_truthy_truthy [simp]:
  "truthy v \<Longrightarrow> new_if_truthy ctor v = and_then (ctor v) (\<lambda>x. Inr (Some x))"
  by (simp add: new_if_truthy_def)

lemma Attribute_new_types:
  assumes "Attribute_new json = Inr a"
  shows "new_if_truthy Type_new (field json ''read_type'') = Inr (at_read_type a)"
    and "new_if_truthy Type_new (field json ''write_type'') = Inr (at_write_type a)"
  using assms by (auto simp: Attribute_new_def and_then_eq_Inr)

text \<open>
  C6. In the declaration of an attribute with a string name and description, between the
  name and the first line of the description stands: the rendering of \<open>read_type\<close>,
  \<^verbatim>\<open>" | "\<close> and the rendering of \<open>write_type\<close> when both are set; the rendering of the one
  that is set when one is; \<^verbatim>\<open>any\<close> when none is. An attribute built from JSON that has a
  \<^verbatim>\<open>write_type\<close> and no \<^verbatim>\<open>read_type\<close> has \<open>write_type\<close> set, to the \<open>Type\<close> built from it, and
  \<open>read_type\<close> \<open>null\<close>.
\<close>

theorem Attribute_toField_type_segment:
  assumes "bm_name a = JStr n" and "bm_description a = JStr d"
  shows
   "(at_read_type a = Some r \<and> at_write_type a = Some w
       \<and> toString r = Inr (JStr rs) \<and> toString w = Inr (JStr ws)
     \<longrightarrow> Attribute_toField a
           = Inr (''---@field '' @ n @ '' '' @ rs @ '' | '' @ ws @ '' '' @ line1 d))
    \<and> (at_read_type a = Some r \<and> at_write_type a = None \<and> toString r = Inr (JStr rs)
     \<longrightarrow> Attribute_toField a = Inr (''---@field '' @ n @ '' '' @ rs @ '' '' @ line1 d))
    \<and> (at_read_type a = None \<and> at_write_type a = Some w \<and> toString w = Inr (JStr ws)
     \<longrightarrow> Attribute_toField a = Inr (''---@field '' @ n @ '' '' @ ws @ '' '' @ line1 d))
    \<and> (at_read_type a = None \<and> at_write_type a = None
     \<longrightarrow> Attribute_toField a = Inr (''---@field '' @ n @ '' any '' @ line1 d))
    \<and> (Attribute_new json = Inr a \<and> \<not> truthy (field json ''read_type'')
       \<and> truthy (field json ''write_type'')
     \<longrightarrow> at_read_type a = None
         \<and> (\<exists>w. Type_new (field json ''write_type'') = Inr w \<and> at_write_type a = Some w))"
proof (intro conjI impI)
  assume "Attribute_new json = Inr a \<and> \<not> truthy (field json ''read_type'')
       \<and> truthy (field json ''write_type'')"
  with Attribute_new_types [of json a]
  show "at_read_type a = None"
    and "\<exists>w. Type_new (field json ''write_type'') = Inr w \<and> at_write_type a = Some w"
    by (auto simp: and_then_eq_Inr)
qed (use assms in \<open>simp_all add: Attribute_toField_def Attribute_typeStr_def\<close>)

text \<open>
  Attributes named \<^verbatim>\<open>speed\<close> built from JSON with only a \<^verbatim>\<open>write_type\<close>, with both types,
  with only a \<^verbatim>\<open>read_type\<close>, and with none.
\<close>

theorem Attribute_toField_type_segment_witness:
  "and_then (Attribute_new (JObj [(''name'', JStr ''speed''), (''description'', JStr ''Speed.''),
                                 (''write_type'', JStr ''double'')]))
      Attribute_toField = Inr ''---@field speed double Speed.''
   \<and> and_then (Attribute_new (JObj [(''name'', JStr ''speed''), (''description'', JStr ''Speed.''),
           (''read_type'', JStr ''double''),
           (''write_type'', JObj [(''complex_type'', JStr ''array''), (''value'', JStr ''uint'')])]))
      Attribute_toField = Inr ''---@field speed double | uint[] Speed.''
   \<and> and_then (Attribute_new (JObj [(''name'', JStr ''speed''), (''description'', JStr ''Speed.''),
           (''read_type'', JStr ''double'')]))
      Attribute_toField = Inr ''---@field speed double Speed.''
   \<and> and_then (Attribute_new (JObj [(''name'', JStr ''speed''), (''description'', JStr ''Speed.'')]))
      Attribute_toField = Inr ''---@field speed any Speed.''"
proof -
  let ?base = "\<lparr>bm_name = JStr ''speed'', bm_order = JUndefined,
                 bm_description = JStr ''Speed.'', bm_lists = JNull, bm_examples = JNull,
                 bm_images = None, at_visibility = JNull, at_raises = None,
                 at_subclasses = JNull, at_read_type = None, at_write_type = None,
                 at_optional = JBool False\<rparr>"
  let ?double = "Type (JStr ''double'') None (Plain JNull) None None JNull JNull"
  let ?uints = "Type (JStr ''array'') None (Plain (JStr ''uint'')) None None JNull JNull"
  let ?jw = "JObj [(''name'', JStr ''speed''), (''description'', JStr ''Speed.''),
                   (''write_type'', JStr ''double'')]"
  have w: "Attribute_new ?jw = Inr (?base\<lparr>at_write_type := Some ?double\<rparr>)"
    by (simp add: Attribute_new_def BasicMember_new_def new_array_def or_else_def)
  have rw: "Attribute_new (JObj [(''name'', JStr ''speed''), (''description'', JStr ''Speed.''),
           (''read_type'', JStr ''double''),
           (''write_type'', JObj [(''complex_type'', JStr ''array''), (''value'', JStr ''uint'')])])
         = Inr (?base\<lparr>at_read_type := Some ?double, at_write_type := Some ?uints\<rparr>)"
    by (simp add: Attribute_new_def BasicMember_new_def new_array_def or_else_def
          Type_new.simps)
  have r: "Attribute_new (JObj [(''name'', JStr ''speed''), (''description'', JStr ''Speed.''),
           (''read_type'', JStr ''double'')])
         = Inr (?base\<lparr>at_read_type := Some ?double\<rparr>)"
    by (simp add: Attribute_new_def BasicMember_new_def new_array_def or_else_def)
  have n: "Attribute_new (JObj [(''name'', JStr ''speed''), (''description'', JStr ''Speed.'')])
         = Inr ?base"
    by (simp add: Attribute_new_def BasicMember_new_def new_array_def or_else_def)
  from Attribute_toField_type_segment
         [of "?base\<lparr>at_write_type := Some ?double\<rparr>" "''speed''" "''Speed.''"
             ?double ?double "''double''" "''double''" ?jw]
       Attribute_toField_type_segment
         [of "?base\<lparr>at_read_type := Some ?double, at_write_type := Some ?uints\<rparr>"
             "''speed''" "''Speed.''" ?double ?uints "''double''" "''uint[]''" ?jw]
       Attribute_toField_type_segment
         [of "?base\<lparr>at_read_type := Some ?double\<rparr>" "''speed''" "''Speed.''"
             ?double ?double "''double''" "''double''" ?jw]
       Attribute_toField_type_segment
         [of ?base "''speed''" "''Speed.''" ?double ?double "''double''" "''double''" ?jw]
       w rw r n
  show ?thesis
    by (simp add: line1_def)
qed

section \<open>Constructors\<close>

lemma operator_new_Some:
  "operator_new j = Inr (Some r) \<Longrightarrow> is_operator_name j \<and> built_from j r"
  by (auto simp: operator_new_def is_operator_name_def exposes_signature_def built_from_def
        and_then_eq_Inr split: if_splits)

lemma operator_new_None: "operator_new j = Inr None \<Longrightarrow> \<not> is_operator_name j"
  by (auto simp: operator_new_def is_operator_name_def and_then_eq_Inr split: if_splits)

lemma operators_loop_filter:
  "operators_loop ops = Inr rs \<Longrightarrow> list_all2 built_from (filter is_operator_name ops) rs"
proof (induction ops arbitrary: rs)
  case Nil
  then show ?case by simp
next
  case (Cons j ops)
  from Cons.prems obtain operator pushed where
    o: "operator_new j = Inr operator" and p: "operators_loop ops = Inr pushed"
    and rs: "rs = (case operator of None \<Rightarrow> pushed | Some op \<Rightarrow> op # pushed)"
    by (auto simp: and_then_eq_Inr)
  show ?case
  proof (cases operator)
    case None
    with o have "\<not> is_operator_name j" by (simp add: operator_new_None)
    with None rs Cons.IH [OF p] show ?thesis by simp
  next
    case (Some r)
    with o operator_new_Some [of j r] rs Cons.IH [OF p] show ?thesis by simp
  qed
qed

text \<open>
  C7. When a class is built from JSON whose \<^verbatim>\<open>operators\<close> is an array, its \<open>operators\<close>
  are, in the order of the input, what the operator objects named \<^verbatim>\<open>call\<close>, \<^verbatim>\<open>index\<close> or
  \<^verbatim>\<open>length\<close> give: a \<open>Method\<close> for one that exposes \<^verbatim>\<open>parameters\<close> or \<^verbatim>\<open>return_values\<close>, an
  \<open>Attribute\<close> for any other. An operator object of another name gives no entry.
\<close>

theorem Class_new_operators:
  assumes "Class_new json = Inr c" and "field json ''operators'' = JArr ops"
  shows "\<exists>rs. c_operators c = Some rs
           \<and> list_all2 built_from (filter is_operator_name ops) rs"
  using assms
  by (auto simp: Class_new_def and_then_eq_Inr dest: operators_loop_filter)

text \<open>
  The class \<^verbatim>\<open>LuaEntity\<close> with the operators \<^verbatim>\<open>index\<close> (no signature), \<^verbatim>\<open>concat\<close> and
  \<^verbatim>\<open>call\<close> (with parameters): an \<open>Attribute\<close>, nothing, a \<open>Method\<close>.
\<close>

theorem Class_new_operators_witness:
  "Class_new (JObj [(''name'', JStr ''LuaEntity''),
       (''operators'', JArr [
          JObj [(''name'', JStr ''index''), (''read_type'', JStr ''any'')],
          JObj [(''name'', JStr ''concat''), (''parameters'', JArr [])],
          JObj [(''name'', JStr ''call''), (''parameters'', JArr [])]])])
   = Inr \<lparr>bm_name = JStr ''LuaEntity'', bm_order = JUndefined, bm_description = JStr [],
          bm_lists = JNull, bm_examples = JNull, bm_images = None,
          c_visibility = JNull, c_parent = JNull, c_abstract = JBool False,
          c_methods = None, c_attributes = None,
          c_operators = Some [
            OpAttribute \<lparr>bm_name = JStr ''index'', bm_order = JUndefined,
               bm_description = JStr [], bm_lists = JNull, bm_examples = JNull,
               bm_images = None, at_visibility = JNull, at_raises = None,
               at_subclasses = JNull,
               at_read_type = Some (Type (JStr ''any'') None (Plain JNull) None None
                                      JNull JNull),
               at_write_type = None, at_optional = JBool False\<rparr>,
            OpMethod \<lparr>bm_name = JStr ''call'', bm_order = JUndefined,
               bm_description = JStr [], bm_lists = JNull, bm_examples = JNull,
               bm_images = None, m_visibility = JNull, m_raises = None,
               m_subclasses = JNull, m_parameters = Some [],
               m_variant_parameter_groups = None, m_variant_parameter_description = JNull,
               m_variadic_parameter = None, m_format = None, m_return_values = None\<rparr>]\<rparr>
   \<and> filter is_operator_name
        [JObj [(''name'', JStr ''index''), (''read_type'', JStr ''any'')],
         JObj [(''name'', JStr ''concat''), (''parameters'', JArr [])],
         JObj [(''name'', JStr ''call''), (''parameters'', JArr [])]]
     = [JObj [(''name'', JStr ''index''), (''read_type'', JStr ''any'')],
        JObj [(''name'', JStr ''call''), (''parameters'', JArr [])]]
   \<and> built_from (JObj [(''name'', JStr ''index''), (''read_type'', JStr ''any'')])
        (OpAttribute \<lparr>bm_name = JStr ''index'', bm_order = JUndefined,
               bm_description = JStr [], bm_lists = JNull, bm_examples = JNull,
               bm_images = None, at_visibility = JNull, at_raises = None,
               at_subclasses = JNull,
               at_read_type = Some (Type (JStr ''any'') None (Plain JNull) None None
                                      JNull JNull),
               at_write_type = None, at_optional = JBool False\<rparr>)
   \<and> built_from (JObj [(''name'', JStr ''call''), (''parameters'', JArr [])])
        (OpMethod \<lparr>bm_name = JStr ''call'', bm_order = JUndefined,
               bm_description = JStr [], bm_lists = JNull, bm_examples = JNull,
               bm_images = None, m_visibility = JNull, m_raises = None,
               m_subclasses = JNull, m_parameters = Some [],
               m_variant_parameter_groups = None, m_variant_parameter_description = JNull,
               m_variadic_parameter = None, m_format = None, m_return_values = None\<rparr>)"
  using Class_new_operators
    [of "JObj [(''name'', JStr ''LuaEntity''),
       (''operators'', JArr [
          JObj [(''name'', JStr ''index''), (''read_type'', JStr ''any'')],
          JObj [(''name'', JStr ''concat''), (''parameters'', JArr [])],
          JObj [(''name'', JStr ''call''), (''parameters'', JArr [])]])]"
     "\<lparr>bm_name = JStr ''LuaEntity'', bm_order = JUndefined, bm_description = JStr [],
          bm_lists = JNull, bm_examples = JNull, bm_images = None,
          c_visibility = JNull, c_parent = JNull, c_abstract = JBool False,
          c_methods = None, c_attributes = None,
          c_operators = Some [
            OpAttribute \<lparr>bm_name = JStr ''index'', bm_order = JUndefined,
               bm_description = JStr [], bm_lists = JNull, bm_examples = JNull,
               bm_images = None, at_visibility = JNull, at_raises = None,
               at_subclasses = JNull,
               at_read_type = Some (Type (JStr ''any'') None (Plain JNull) None None
                                      JNull JNull),
               at_write_type = None, at_optional = JBool False\<rparr>,
            OpMethod \<lparr>bm_name = JStr ''call'', bm_order = JUndefined,
               bm_description = JStr [], bm_lists = JNull, bm_examples = JNull,
               bm_images = None, m_visibility = JNull, m_raises = None,
               m_subclasses = JNull, m_parameters = Some [],
               m_variant_parameter_groups = None, m_variant_parameter_description = JNull,
               m_variadic_parameter = None, m_format = None, m_return_values = None\<rparr>]\<rparr>"
     "[JObj [(''name'', JStr ''index''), (''read_type'', JStr ''any'')],
          JObj [(''name'', JStr ''concat''), (''parameters'', JArr [])],
          JObj [(''name'', JStr ''call''), (''parameters'', JArr [])]]"]
  by (simp add: Class_new_def operator_new_def Method_new_def Attribute_new_def
        BasicMember_new_def new_array_def or_else_def is_operator_name_def)

lemma new_array_not_array: "\<not> is_array v \<Longrightarrow> new_array ctor v = Inr None"
  by (cases v) (simp_all add: new_array_def)

text \<open>
  C8, as stated, fails: \<^verbatim>\<open>json.lists || null\<close> keeps every truthy value, so a \<^verbatim>\<open>lists\<close>
  that is a string where an array is expected is stored as it is.
\<close>

theorem BasicMember_new_lists_counterexample:
  "and_then (BasicMember_new (JObj [(''name'', JStr ''x''), (''lists'', JStr ''oops'')]))
     (\<lambda>b. Inr (bm_lists b)) = Inr (JStr ''oops'')
   \<and> and_then (BasicMember_new (JObj [(''name'', JStr ''x''), (''lists'', JStr ''oops'')]))
     (\<lambda>b. Inr (bm_lists b)) \<noteq> Inr JNull"
  by (simp add: BasicMember_new_def new_array_def or_else_def)

lemma map_of_filter_key:
  "map_of (filter (\<lambda>(k', v). k' \<noteq> k) kvs) k' = (if k' = k then None else map_of kvs k')"
  by (induction kvs) auto

lemma field_without [simp]:
  "field (without k j) k' = (if k' = k then JUndefined else field j k')"
  by (cases j) (simp_all add: map_of_filter_key)

lemma typeof_without [simp]: "typeof (without k j) = typeof j"
  by (cases j) simp_all

lemma nullish_without [simp]: "nullish (without k j) = nullish j"
  by (cases j) simp_all

lemma returns_simps [simp]: "returns (Inr x)" "\<not> returns (Inl e)"
  by (simp_all add: returns_def)

lemma returns_and_then:
  "returns (and_then r f) \<longleftrightarrow> (\<exists>x. r = Inr x \<and> returns (f x))"
  by (cases r) auto

lemma or_else_JNull_defined: "or_else v JNull \<noteq> JUndefined"
  by (cases v) (simp_all add: or_else_def)

lemma BasicMember_new_member_defaults:
  assumes "BasicMember_new json = Inr b"
  shows "member_defaults json b"
proof -
  from assms obtain images where
    i: "new_array Image_new (field json ''images'') = Inr images"
    and l: "bm_lists b = or_else (field json ''lists'') JNull"
    and e: "bm_examples b = or_else (field json ''examples'') JNull"
    and im: "bm_images b = images"
    by (auto simp: BasicMember_new_def and_then_eq_Inr split: if_splits)
  have "is_array (field json ''images'') \<or> bm_images b = None"
  proof (cases "is_array (field json ''images'')")
    case False
    with i im show ?thesis by (simp add: new_array_not_array)
  qed simp
  moreover have "bm_lists b \<noteq> JUndefined" "bm_examples b \<noteq> JUndefined"
    using l e by (simp_all add: or_else_JNull_defined)
  ultimately show ?thesis
    using l e by (simp add: member_defaults_def or_else_def)
qed

lemma super_member_defaults:
  "member_defaults json super \<Longrightarrow> bm_lists e = bm_lists super \<Longrightarrow>
   bm_examples e = bm_examples super \<Longrightarrow> bm_images e = bm_images super \<Longrightarrow>
   member_defaults json e"
  unfolding member_defaults_def by metis

lemma Concept_new_member_defaults: "Concept_new json = Inr c \<Longrightarrow> member_defaults json c"
  by (auto simp: Concept_new_def and_then_eq_Inr
        intro: super_member_defaults [OF BasicMember_new_member_defaults])

lemma Define_new_member_defaults:
  "Define_new json = Inr d \<Longrightarrow> member_defaults json (d_member d)"
  unfolding Define_new.simps [of json]
  by (auto split: sum.splits intro: BasicMember_new_member_defaults)

lemma Property_new_member_defaults: "Property_new json = Inr c \<Longrightarrow> member_defaults json c"
  by (auto simp: Property_new_def and_then_eq_Inr
        intro: super_member_defaults [OF BasicMember_new_member_defaults])

lemma Prototype_new_member_defaults: "Prototype_new json = Inr c \<Longrightarrow> member_defaults json c"
  by (auto simp: Prototype_new_def and_then_eq_Inr
        intro: super_member_defaults [OF BasicMember_new_member_defaults])

lemma Attribute_new_member_defaults: "Attribute_new json = Inr c \<Longrightarrow> member_defaults json c"
  by (auto simp: Attribute_new_def and_then_eq_Inr
        intro: super_member_defaults [OF BasicMember_new_member_defaults])

lemma Method_new_member_defaults: "Method_new json = Inr c \<Longrightarrow> member_defaults json c"
  by (auto simp: Method_new_def and_then_eq_Inr
        intro: super_member_defaults [OF BasicMember_new_member_defaults])

lemma Class_new_member_defaults: "Class_new json = Inr c \<Longrightarrow> member_defaults json c"
  by (auto simp: Class_new_def and_then_eq_Inr
        intro: super_member_defaults [OF BasicMember_new_member_defaults])

lemma BasicMember_new_not_array:
  "\<not> is_array (field json ''images'') \<Longrightarrow>
   BasicMember_new json =
     (if nullish json then Inl TypeError
      else Inr \<lparr>bm_name = field json ''name'', bm_order = field json ''order'',
                bm_description = or_else (field json ''description'') (JStr []),
                bm_lists = or_else (field json ''lists'') JNull,
                bm_examples = or_else (field json ''examples'') JNull,
                bm_images = None\<rparr>)"
  by (simp add: BasicMember_new_def new_array_not_array)

lemma BasicMember_new_returns:
  "returns (BasicMember_new json)
     = returns (BasicMember_new (without ''lists'' (without ''examples'' json)))"
  "\<not> is_array (field json ''images'') \<Longrightarrow>
   returns (BasicMember_new json) = returns (BasicMember_new (without ''images'' json))"
  by (simp_all add: BasicMember_new_def new_array_not_array returns_and_then
        and_then_eq_Inr)

lemma Concept_new_returns:
  "returns (Concept_new json)
     = returns (Concept_new (without ''lists'' (without ''examples'' json)))"
  "\<not> is_array (field json ''images'') \<Longrightarrow>
   returns (Concept_new json) = returns (Concept_new (without ''images'' json))"
  by (simp_all add: Concept_new_def BasicMember_new_def new_array_not_array returns_and_then
        and_then_eq_Inr)

lemma Property_new_returns:
  "returns (Property_new json)
     = returns (Property_new (without ''lists'' (without ''examples'' json)))"
  "\<not> is_array (field json ''images'') \<Longrightarrow>
   returns (Property_new json) = returns (Property_new (without ''images'' json))"
  by (simp_all add: Property_new_def BasicMember_new_def new_array_not_array returns_and_then
        and_then_eq_Inr)

lemma Prototype_new_returns:
  "returns (Prototype_new json)
     = returns (Prototype_new (without ''lists'' (without ''examples'' json)))"
  "\<not> is_array (field json ''images'') \<Longrightarrow>
   returns (Prototype_new json) = returns (Prototype_new (without ''images'' json))"
  by (simp_all add: Prototype_new_def BasicMember_new_def new_array_not_array returns_and_then
        and_then_eq_Inr)

lemma Attribute_new_returns:
  "returns (Attribute_new json)
     = returns (Attribute_new (without ''lists'' (without ''examples'' json)))"
  "\<not> is_array (field json ''images'') \<Longrightarrow>
   returns (Attribute_new json) = returns (Attribute_new (without ''images'' json))"
  by (simp_all add: Attribute_new_def BasicMember_new_def new_array_not_array returns_and_then
        and_then_eq_Inr)

lemma Method_new_returns:
  "returns (Method_new json)
     = returns (Method_new (without ''lists'' (without ''examples'' json)))"
  "\<not> is_array (field json ''images'') \<Longrightarrow>
   returns (Method_new json) = returns (Method_new (without ''images'' json))"
  by (simp_all add: Method_new_def BasicMember_new_def new_array_not_array returns_and_then
        and_then_eq_Inr)

lemma Class_new_returns:
  "returns (Class_new json)
     = returns (Class_new (without ''lists'' (without ''examples'' json)))"
  "\<not> is_array (field json ''images'') \<Longrightarrow>
   returns (Class_new json) = returns (Class_new (without ''images'' json))"
  by (simp_all add: Class_new_def BasicMember_new_def new_array_not_array returns_and_then
        and_then_eq_Inr)

lemma Define_new_returns_iff:
  "returns (Define_new json) \<longleftrightarrow>
     returns (BasicMember_new json)
     \<and> returns (new_array DefineValue_new (field json ''values''))
     \<and> returns (case field json ''subkeys'' of
                   JArr xs \<Rightarrow> sequence (map Define_new xs)
                 | _ \<Rightarrow> Inr [])"
  unfolding Define_new.simps [of json]
  by (auto simp: returns_def split: sum.splits json.splits)

lemma Define_new_returns_lists:
  "returns (Define_new json)
     = returns (Define_new (without ''lists'' (without ''examples'' json)))"
  unfolding Define_new_returns_iff [of json]
    Define_new_returns_iff [of "without ''lists'' (without ''examples'' json)"]
  using BasicMember_new_returns(1) [of json] by simp

lemma Define_new_returns_images:
  "\<not> is_array (field json ''images'') \<Longrightarrow>
   returns (Define_new json) = returns (Define_new (without ''images'' json))"
  unfolding Define_new_returns_iff [of json]
    Define_new_returns_iff [of "without ''images'' json"]
  using BasicMember_new_returns(2) [of json] by simp

lemma defaults_holdI:
  assumes "\<And>x. ctor json = Inr x \<Longrightarrow> member_defaults json (member x)"
    and "returns (ctor json) = returns (ctor (without ''lists'' (without ''examples'' json)))"
    and "\<not> is_array (field json ''images'') \<Longrightarrow>
         returns (ctor json) = returns (ctor (without ''images'' json))"
  shows "defaults_hold ctor member json"
proof -
  have "case ctor json of Inl e \<Rightarrow> True | Inr x \<Rightarrow> member_defaults json (member x)"
    using assms(1) by (cases "ctor json") simp_all
  moreover have "is_array (field json ''images'')
      \<or> returns (ctor json) = returns (ctor (without ''images'' json))"
    using assms(3) by blast
  ultimately show ?thesis
    unfolding defaults_hold_def using assms(2) by blast
qed

text \<open>
  C8, amended. For every entity built from \<open>json\<close> (a \<open>BasicMember\<close>, or one of the
  classes that extend it: \<open>Concept\<close>, \<open>Define\<close>, \<open>Property\<close>, \<open>Prototype\<close>, \<open>Attribute\<close>,
  \<open>Method\<close>, \<open>Class\<close>): \<open>lists\<close> and \<open>examples\<close> are \<open>null\<close> when the JSON has none or a falsy
  one and the value of the JSON, of whatever shape, when that is truthy, never
  \<open>undefined\<close>; \<open>images\<close> is \<open>null\<close> when the JSON has none or one that is not an array;
  whether the constructor returns does not depend on \<^verbatim>\<open>lists\<close> and \<^verbatim>\<open>examples\<close>, nor on an
  \<^verbatim>\<open>images\<close> that is not an array; and the constructor of \<open>BasicMember\<close> returns for every
  JSON value but \<open>null\<close> whose \<^verbatim>\<open>images\<close> is absent or not an array.
\<close>

theorem entity_member_defaults:
  "defaults_hold BasicMember_new (\<lambda>x. x) json
   \<and> defaults_hold Concept_new (\<lambda>x. x) json
   \<and> defaults_hold Define_new d_member json
   \<and> defaults_hold Property_new (\<lambda>x. x) json
   \<and> defaults_hold Prototype_new (\<lambda>x. x) json
   \<and> defaults_hold Attribute_new (\<lambda>x. x) json
   \<and> defaults_hold Method_new (\<lambda>x. x) json
   \<and> defaults_hold Class_new (\<lambda>x. x) json
   \<and> (nullish json \<or> is_array (field json ''images'') \<or> returns (BasicMember_new json))"
proof (intro conjI)
  show "defaults_hold BasicMember_new (\<lambda>x. x) json"
    by (rule defaults_holdI)
       (fact BasicMember_new_member_defaults BasicMember_new_returns)+
  show "defaults_hold Concept_new (\<lambda>x. x) json"
    by (rule defaults_holdI) (fact Concept_new_member_defaults Concept_new_returns)+
  show "defaults_hold Define_new d_member json"
    by (rule defaults_holdI)
       (fact Define_new_member_defaults Define_new_returns_lists Define_new_returns_images)+
  show "defaults_hold Property_new (\<lambda>x. x) json"
    by (rule defaults_holdI) (fact Property_new_member_defaults Property_new_returns)+
  show "defaults_hold Prototype_new (\<lambda>x. x) json"
    by (rule defaults_holdI) (fact Prototype_new_member_defaults Prototype_new_returns)+
  show "defaults_hold Attribute_new (\<lambda>x. x) json"
    by (rule defaults_holdI) (fact Attribute_new_member_defaults Attribute_new_returns)+
  show "defaults_hold Method_new (\<lambda>x. x) json"
    by (rule defaults_holdI) (fact Method_new_member_defaults Method_new_returns)+
  show "defaults_hold Class_new (\<lambda>x. x) json"
    by (rule defaults_holdI) (fact Class_new_member_defaults Class_new_returns)+
  show "nullish json \<or> is_array (field json ''images'') \<or> returns (BasicMember_new json)"
    by (cases "is_array (field json ''images'')") (simp_all add: BasicMember_new_not_array)
qed

text \<open>
  Each of the eight constructors at JSON whose \<^verbatim>\<open>lists\<close> is a string, whose \<^verbatim>\<open>examples\<close> is
  \<open>false\<close> and whose \<^verbatim>\<open>images\<close> is a string: the string of \<^verbatim>\<open>lists\<close> is kept, the other two
  are \<open>null\<close>.
\<close>

theorem entity_member_defaults_witness:
  "and_then (BasicMember_new (JObj [(''name'', JStr ''x''), (''lists'', JStr ''see below''),
        (''examples'', JBool False), (''images'', JStr ''pic.png'')]))
      (\<lambda>e. Inr (bm_lists e, bm_examples e, bm_images e)) = Inr (JStr ''see below'', JNull, None)
   \<and> and_then (Concept_new (JObj [(''name'', JStr ''x''), (''lists'', JStr ''see below''),
        (''examples'', JBool False), (''images'', JStr ''pic.png'')]))
      (\<lambda>e. Inr (bm_lists e, bm_examples e, bm_images e)) = Inr (JStr ''see below'', JNull, None)
   \<and> and_then (Define_new (JObj [(''name'', JStr ''x''), (''lists'', JStr ''see below''),
        (''examples'', JBool False), (''images'', JStr ''pic.png'')]))
      (\<lambda>e. Inr (bm_lists (d_member e), bm_examples (d_member e), bm_images (d_member e)))
       = Inr (JStr ''see below'', JNull, None)
   \<and> and_then (Property_new (JObj [(''name'', JStr ''x''), (''lists'', JStr ''see below''),
        (''examples'', JBool False), (''images'', JStr ''pic.png'')]))
      (\<lambda>e. Inr (bm_lists e, bm_examples e, bm_images e)) = Inr (JStr ''see below'', JNull, None)
   \<and> and_then (Prototype_new (JObj [(''name'', JStr ''x''), (''lists'', JStr ''see below''),
        (''examples'', JBool False), (''images'', JStr ''pic.png'')]))
      (\<lambda>e. Inr (bm_lists e, bm_examples e, bm_images e)) = Inr (JStr ''see below'', JNull, None)
   \<and> and_then (Attribute_new (JObj [(''name'', JStr ''x''), (''lists'', JStr ''see below''),
        (''examples'', JBool False), (''images'', JStr ''pic.png'')]))
      (\<lambda>e. Inr (bm_lists e, bm_examples e, bm_images e)) = Inr (JStr ''see below'', JNull, None)
   \<and> and_then (Method_new (JObj [(''name'', JStr ''x''), (''lists'', JStr ''see below''),
        (''examples'', JBool False), (''images'', JStr ''pic.png'')]))
      (\<lambda>e. Inr (bm_lists e, bm_examples e, bm_images e)) = Inr (JStr ''see below'', JNull, None)
   \<and> and_then (Class_new (JObj [(''name'', JStr ''x''), (''lists'', JStr ''see below''),
        (''examples'', JBool False), (''images'', JStr ''pic.png'')]))
      (\<lambda>e. Inr (bm_lists e, bm_examples e, bm_images e)) = Inr (JStr ''see below'', JNull, None)"
  using entity_member_defaults
    [of "JObj [(''name'', JStr ''x''), (''lists'', JStr ''see below''),
               (''examples'', JBool False), (''images'', JStr ''pic.png'')]"]
  by (simp add: BasicMember_new_def Concept_new_def Define_new.simps Property_new_def
        Prototype_new_def Attribute_new_def Method_new_def Class_new_def new_array_def
        or_else_def)

lemma Type_new_without:
  assumes "\<not> truthy (field json ''full_format'')"
  shows "Type_new (without ''full_format'' json) = Type_new json"
proof (cases "typeof json = ''string''")
  case True
  then have "without ''full_format'' json = json" by (cases json) simp_all
  then show ?thesis by simp
next
  case False
  then show ?thesis
    unfolding Type_new.simps [of json] Type_new.simps [of "without ''full_format'' json"]
    using assms
    by (simp add: or_else_def cong: if_cong sum.case_cong json.case_cong)
qed

lemma Type_new_full_format:
  "Type_new json = Inr t \<Longrightarrow> full_format t = or_else (field json ''full_format'') JNull"
  unfolding Type_new.simps [of json]
  by (cases json) (auto simp: or_else_def split: if_splits sum.splits)


lemma Prototype_new_without:
  assumes "\<not> truthy (field json ''instance_limit'')"
  shows "Prototype_new (without ''instance_limit'' json) = Prototype_new json"
proof -
  have "BasicMember_new (without ''instance_limit'' json) = BasicMember_new json"
    by (simp add: BasicMember_new_def)
  with assms show ?thesis
    by (simp add: Prototype_new_def or_else_def)
qed

lemma MethodFormat_new_without:
  assumes "\<not> truthy (field json ''takes_optional'')"
  shows "MethodFormat_new (without ''takes_optional'' json) = MethodFormat_new json"
  using assms by (simp add: MethodFormat_new_def or_else_def)

text \<open>
  C10. A \<^verbatim>\<open>full_format\<close>, an \<^verbatim>\<open>instance_limit\<close> or a \<^verbatim>\<open>takes_optional\<close> with a falsy value
  (\<open>false\<close>, \<open>0\<close>, the empty string, \<open>null\<close>) gives the \<open>Type\<close>, the \<open>Prototype\<close> or the
  \<open>MethodFormat\<close> that the JSON without the property gives, and the stored field is
  \<open>null\<close>.
\<close>

theorem falsy_field_as_absent:
  "(\<not> truthy (field json ''full_format'')
     \<longrightarrow> Type_new json = Type_new (without ''full_format'' json)
         \<and> (Type_new json = Inr t \<longrightarrow> full_format t = JNull))
   \<and> (\<not> truthy (field json' ''instance_limit'')
     \<longrightarrow> Prototype_new json' = Prototype_new (without ''instance_limit'' json')
         \<and> (Prototype_new json' = Inr p \<longrightarrow> pt_instance_limit p = JNull))
   \<and> (\<not> truthy (field json'' ''takes_optional'')
     \<longrightarrow> MethodFormat_new json'' = MethodFormat_new (without ''takes_optional'' json'')
         \<and> (MethodFormat_new json'' = Inr f \<longrightarrow> mf_takes_optional f = JNull))"
proof (intro conjI impI)
  assume "\<not> truthy (field json ''full_format'')" and "Type_new json = Inr t"
  then show "full_format t = JNull"
    by (simp add: Type_new_full_format or_else_def)
next
  assume "\<not> truthy (field json' ''instance_limit'')" and "Prototype_new json' = Inr p"
  then show "pt_instance_limit p = JNull"
    by (auto simp: Prototype_new_def and_then_eq_Inr or_else_def)
next
  assume "\<not> truthy (field json'' ''takes_optional'')" and "MethodFormat_new json'' = Inr f"
  then show "mf_takes_optional f = JNull"
    by (auto simp: MethodFormat_new_def or_else_def split: if_splits)
qed (simp_all add: Type_new_without Prototype_new_without MethodFormat_new_without)

text \<open>
  A union with \<^verbatim>\<open>full_format: false\<close>, a prototype with \<^verbatim>\<open>instance_limit: 0\<close> and a method
  format with \<^verbatim>\<open>takes_optional: false\<close>, each beside the same JSON without the property.
\<close>

theorem falsy_field_as_absent_witness:
  "Type_new (JObj [(''complex_type'', JStr ''union''), (''options'', JArr [JStr ''a'']),
                   (''full_format'', JBool False)])
     = Inr (Type (JStr ''union'') None (Plain JNull) None (Some [Plain (JStr ''a'')])
              JNull JNull)
   \<and> Type_new (JObj [(''complex_type'', JStr ''union''), (''options'', JArr [JStr ''a''])])
     = Inr (Type (JStr ''union'') None (Plain JNull) None (Some [Plain (JStr ''a'')])
              JNull JNull)
   \<and> Prototype_new (JObj [(''name'', JStr ''boiler''), (''instance_limit'', JNum 0)])
     = Inr \<lparr>bm_name = JStr ''boiler'', bm_order = JUndefined, bm_description = JStr [],
            bm_lists = JNull, bm_examples = JNull, bm_images = None,
            pt_visibility = JNull, pt_parent = JNull, pt_abstract = JBool False,
            pt_typename = JNull, pt_instance_limit = JNull, pt_deprecated = JBool False,
            pt_properties = None, pt_custom_properties = JNull, pt_default = JNull\<rparr>
   \<and> Prototype_new (JObj [(''name'', JStr ''boiler'')])
     = Inr \<lparr>bm_name = JStr ''boiler'', bm_order = JUndefined, bm_description = JStr [],
            bm_lists = JNull, bm_examples = JNull, bm_images = None,
            pt_visibility = JNull, pt_parent = JNull, pt_abstract = JBool False,
            pt_typename = JNull, pt_instance_limit = JNull, pt_deprecated = JBool False,
            pt_properties = None, pt_custom_properties = JNull, pt_default = JNull\<rparr>
   \<and> MethodFormat_new (JObj [(''takes_table'', JBool True), (''takes_optional'', JBool False)])
     = Inr \<lparr>mf_takes_table = JBool True, mf_takes_optional = JNull\<rparr>
   \<and> MethodFormat_new (JObj [(''takes_table'', JBool True)])
     = Inr \<lparr>mf_takes_table = JBool True, mf_takes_optional = JNull\<rparr>"
  using falsy_field_as_absent
    [of "JObj [(''complex_type'', JStr ''union''), (''options'', JArr [JStr ''a'']),
               (''full_format'', JBool False)]"
        "Type (JStr ''union'') None (Plain JNull) None (Some [Plain (JStr ''a'')]) JNull JNull"
        "JObj [(''name'', JStr ''boiler''), (''instance_limit'', JNum 0)]"
        "\<lparr>bm_name = JStr ''boiler'', bm_order = JUndefined, bm_description = JStr [],
            bm_lists = JNull, bm_examples = JNull, bm_images = None,
            pt_visibility = JNull, pt_parent = JNull, pt_abstract = JBool False,
            pt_typename = JNull, pt_instance_limit = JNull, pt_deprecated = JBool False,
            pt_properties = None, pt_custom_properties = JNull, pt_default = JNull\<rparr>"
        "JObj [(''takes_table'', JBool True), (''takes_optional'', JBool False)]"
        "\<lparr>mf_takes_table = JBool True, mf_takes_optional = JNull\<rparr>"]
  by (simp add: Type_new.simps Prototype_new_def MethodFormat_new_def BasicMember_new_def
        new_array_def or_else_def)

end
